theory Spec2Isabelle
  imports Main
begin

section \<open>Python text\<close>

text \<open>
  A Python \<open>str\<close> is a sequence of Unicode code points, so a string is a list of
  natural numbers. \<open>str ''abc''\<close> writes an ASCII literal. The character tables of the
  interpreter (what is alphanumeric, the lower-case and upper-case mappings) are not part
  of the repository; they are taken as a parameter and only consulted for code points
  from 128 on, the ASCII range being written out.
\<close>

type_synonym pystr = "nat list"

definition str :: "string \<Rightarrow> pystr" where
  "str cs = map of_char cs"

record unicode =
  isalnum :: "nat \<Rightarrow> bool"
  tolower :: "nat \<Rightarrow> nat"
  toupper :: "nat \<Rightarrow> nat list"

definition ascii_digit :: "nat \<Rightarrow> bool" where
  "ascii_digit c = (48 \<le> c \<and> c \<le> 57)"

definition ascii_letter :: "nat \<Rightarrow> bool" where
  "ascii_letter c = ((65 \<le> c \<and> c \<le> 90) \<or> (97 \<le> c \<and> c \<le> 122))"

definition ascii_fold :: "nat \<Rightarrow> nat" where
  "ascii_fold c = (if 65 \<le> c \<and> c \<le> 90 then c + 32 else c)"

definition lower_cp :: "unicode \<Rightarrow> nat \<Rightarrow> nat" where
  "lower_cp u c = (if c < 128 then ascii_fold c else tolower u c)"

definition upper_cp :: "unicode \<Rightarrow> nat \<Rightarrow> nat list" where
  "upper_cp u c =
     (if c < 128 then [if 97 \<le> c \<and> c \<le> 122 then c - 32 else c] else toupper u c)"

definition upper :: "unicode \<Rightarrow> pystr \<Rightarrow> pystr" where
  "upper u s = concat (map (upper_cp u) s)"

text \<open>The class \<open>\w\<close> of a \<open>str\<close> pattern: alphanumeric code points and the underscore.\<close>

definition word_cp :: "unicode \<Rightarrow> nat \<Rightarrow> bool" where
  "word_cp u c =
     (c = 95 \<or> (if c < 128 then ascii_digit c \<or> ascii_letter c else isalnum u c))"

fun tails :: "'a list \<Rightarrow> 'a list list" where
  "tails [] = [[]]"
| "tails (x # xs) = (x # xs) # tails xs"


section \<open>Errors\<close>

text \<open>
  Every exception of the module is a value. A message keeps the template of the
  f-string and the values interpolated into it; the text of a formatted \<open>frozenset\<close>
  depends on the iteration order of the set, so the set itself is kept.

  The specification's names for them: its ValidationError is the \<open>ValueError\<close> of the
  sanitizer (\<open>UnallowedCharacters\<close>) or of the vocabulary check
  (\<open>ColumnTypeNotAllowed\<close>); its ArityMismatchError is the \<open>ValueError\<close> with
  \<open>DataElementsMismatch\<close>; its SchemaNotFoundError is \<open>CommonSQLError\<close>; its
  StoreExecutionError is an error of the driver, \<open>SQLiteError\<close>.
\<close>

datatype message =
    UnallowedCharacters pystr
  | ColumnTypeNotAllowed pystr "pystr set"
  | ColumnRetrievalFailed pystr
  | DataElementsMismatch nat nat
  | InvalidIsoformat pystr
  | InvalidLiteral pystr
  | UnpackMismatch nat

datatype sqlite_error = SyntaxOrSchema | IncorrectBindings | Integrity | Interface

datatype error =
    ValueError message
  | CommonSQLError message
  | IndexError
  | OverflowError
  | UnicodeDecodeError
  | SQLiteError sqlite_error


section \<open>The injection pattern and the sanitizer\<close>

text \<open>
  \<open>DB_INJECTION_PATTERN\<close> is \<open>(^[_0-9]+)|[^\w ]|(true|false|select|where|drop|delete|create)\<close>,
  compiled with \<open>re.IGNORECASE\<close> and used with \<open>search\<close>, of which only
  "is there a match" is read. A match exists iff one of the three alternatives matches at
  some position: the first only at position 0, the other two anywhere.

  Under \<open>IGNORECASE\<close> a cased literal \<open>l\<close> of a \<open>str\<close> pattern matches a code point
  whose lower-case mapping is \<open>l\<close>; the literal \<open>s\<close> also matches the long s (383), the
  only letter of the seven keywords with such an extra equivalent.
\<close>

definition literal_ignore :: "unicode \<Rightarrow> nat \<Rightarrow> nat \<Rightarrow> bool" where
  "literal_ignore u l c = (lower_cp u c = l \<or> (l = 115 \<and> lower_cp u c = 383))"

fun match_here :: "unicode \<Rightarrow> pystr \<Rightarrow> pystr \<Rightarrow> bool" where
  "match_here u [] s = True"
| "match_here u (l # ls) [] = False"
| "match_here u (l # ls) (c # cs) = (literal_ignore u l c \<and> match_here u ls cs)"

definition search_literal :: "unicode \<Rightarrow> pystr \<Rightarrow> pystr \<Rightarrow> bool" where
  "search_literal u kw s = (\<exists>t \<in> set (tails s). match_here u kw t)"

definition banned_keywords :: "pystr list" where
  "banned_keywords =
     map str [''true'', ''false'', ''select'', ''where'', ''drop'', ''delete'', ''create'']"

definition leading_digit_or_underscore :: "pystr \<Rightarrow> bool" where
  "leading_digit_or_underscore s =
     (case s of [] \<Rightarrow> False | c # _ \<Rightarrow> c = 95 \<or> ascii_digit c)"

definition unallowed_character :: "unicode \<Rightarrow> pystr \<Rightarrow> bool" where
  "unallowed_character u s = (\<exists>c \<in> set s. \<not> word_cp u c \<and> c \<noteq> 32)"

definition DB_INJECTION_PATTERN_search :: "unicode \<Rightarrow> pystr \<Rightarrow> bool" where
  "DB_INJECTION_PATTERN_search u s =
     (leading_digit_or_underscore s \<or> unallowed_character u s
      \<or> (\<exists>kw \<in> set banned_keywords. search_literal u kw s))"

definition clean_query_injection :: "unicode \<Rightarrow> pystr \<Rightarrow> error + pystr" where
  "clean_query_injection u val =
     (if DB_INJECTION_PATTERN_search u val
      then Inl (ValueError (UnallowedCharacters val))
      else Inr val)"

text \<open>The notions the specification uses to describe the sanitizer.\<close>

definition contains_ci :: "pystr \<Rightarrow> pystr \<Rightarrow> bool" where
  "contains_ci kw s =
     (\<exists>t \<in> set (tails s). map ascii_fold (take (length kw) t) = map ascii_fold kw)"

definition contains_banned :: "pystr \<Rightarrow> bool" where
  "contains_banned s = (\<exists>kw \<in> set banned_keywords. contains_ci kw s)"

definition digits_underscores_only :: "pystr \<Rightarrow> bool" where
  "digits_underscores_only s = (s \<noteq> [] \<and> (\<forall>c \<in> set s. ascii_digit c \<or> c = 95))"

definition plain_identifier :: "pystr \<Rightarrow> bool" where
  "plain_identifier s =
     (case s of [] \<Rightarrow> False
      | c # cs \<Rightarrow> ascii_letter c \<and> (\<forall>d \<in> set cs. ascii_letter d \<or> ascii_digit d \<or> d = 95))"

definition ascii_tables :: unicode where
  "ascii_tables = \<lparr>isalnum = (\<lambda>c. False), tolower = (\<lambda>c. c), toupper = (\<lambda>c. [c])\<rparr>"


section \<open>The allowed column types\<close>

text \<open>
  \<open>DB_DATA_TYPES\<close> and \<open>DB_SUPPORTED_COL_CONSTRAINTS\<close> are imported from
  \<open>pyforcesim.types\<close> and are parameters here. \<open>DB_DATA_TYPES_ALLOWED\<close> is computed
  from them as the module does: \<open>' '.join(entry)\<close> for every pair of the product, united
  with the base types.
\<close>

record constants =
  DB_DATA_TYPES :: "pystr set"
  DB_SUPPORTED_COL_CONSTRAINTS :: "pystr set"

definition DB_DATA_TYPES_ALLOWED :: "constants \<Rightarrow> pystr set" where
  "DB_DATA_TYPES_ALLOWED k =
     DB_DATA_TYPES k
     \<union> (\<lambda>(t, c). t @ str '' '' @ c) ` (DB_DATA_TYPES k \<times> DB_SUPPORTED_COL_CONSTRAINTS k)"

fun join :: "pystr \<Rightarrow> pystr list \<Rightarrow> pystr" where
  "join sep [] = []"
| "join sep [x] = x"
| "join sep (x # y # ys) = x @ sep @ join sep (y # ys)"


section \<open>The embedded engine\<close>

text \<open>
  SQLite is an external collaborator. A statement is kept as the template the module
  fills in together with the interpolated fragments; a row is a list of values of an
  arbitrary type \<open>'v\<close>; the database file maps a table name (folded to lower case, as
  the engine compares names) to the rows \<open>PRAGMA table_info\<close> reports for the table and
  the rows stored in it.

  What the engine decides from the text alone is a parameter: whether it refuses a
  statement whatever the file holds (\<open>malformed\<close>: a syntax error, a reserved name), the
  columns it derives from a column clause (\<open>declare_columns\<close>), whether it refuses a row
  for a table (\<open>refuses_row\<close>: a constraint, a value it cannot bind), and what an arbitrary
  statement text does (\<open>raw\<close>). The rest is written out: \<open>IF NOT EXISTS\<close> leaves an
  existing table alone, \<open>table_info\<close> of a missing table is the empty result, an insert
  needs the table and as many bound values as placeholders, and appends.
\<close>

datatype statement =
    CreateTableIfNotExists pystr pystr
  | PragmaTableInfo pystr
  | InsertValues pystr pystr
  | RawQuery pystr

type_synonym 'v rows = "'v list list"

type_synonym 'v dbfile = "pystr \<rightharpoonup> ('v rows \<times> 'v rows)"

record 'v engine =
  malformed :: "statement \<Rightarrow> bool"
  declare_columns :: "pystr \<Rightarrow> 'v rows option"
  refuses_row :: "'v rows \<Rightarrow> 'v rows \<Rightarrow> 'v list \<Rightarrow> sqlite_error option"
  raw :: "pystr \<Rightarrow> 'v dbfile \<Rightarrow> sqlite_error + ('v rows \<times> 'v dbfile)"

definition sql_fold :: "pystr \<Rightarrow> pystr" where
  "sql_fold name = map ascii_fold name"

definition placeholder_count :: "pystr \<Rightarrow> nat" where
  "placeholder_count ph = length (filter (\<lambda>c. c = 63) ph)"

fun bind_rows ::
  "'v engine \<Rightarrow> 'v rows \<Rightarrow> nat \<Rightarrow> 'v rows \<Rightarrow> 'v rows \<Rightarrow> sqlite_error + 'v rows" where
  "bind_rows e cols n stored [] = Inr stored"
| "bind_rows e cols n stored (d # ds) =
     (if length d \<noteq> n then Inl IncorrectBindings
      else case refuses_row e cols stored d of
             Some err \<Rightarrow> Inl err
           | None \<Rightarrow> bind_rows e cols n (stored @ [d]) ds)"

fun perform ::
  "'v engine \<Rightarrow> statement \<Rightarrow> 'v rows \<Rightarrow> 'v dbfile \<Rightarrow> sqlite_error + ('v rows \<times> 'v dbfile)" where
  "perform e (CreateTableIfNotExists name col_query) ps f =
     (if f (sql_fold name) \<noteq> None then Inr ([], f)
      else case declare_columns e col_query of
             None \<Rightarrow> Inl SyntaxOrSchema
           | Some cols \<Rightarrow>
               if cols = [] then Inl SyntaxOrSchema
               else Inr ([], f(sql_fold name \<mapsto> (cols, []))))"
| "perform e (PragmaTableInfo name) ps f =
     (case f (sql_fold name) of
        None \<Rightarrow> Inr ([], f)
      | Some (cols, stored) \<Rightarrow> Inr (cols, f))"
| "perform e (InsertValues name placeholders) ps f =
     (case f (sql_fold name) of
        None \<Rightarrow> Inl SyntaxOrSchema
      | Some (cols, stored) \<Rightarrow>
          if placeholder_count placeholders \<noteq> length cols then Inl SyntaxOrSchema
          else case bind_rows e cols (placeholder_count placeholders) stored ps of
                 Inl err \<Rightarrow> Inl err
               | Inr stored' \<Rightarrow> Inr ([], f(sql_fold name \<mapsto> (cols, stored'))))"
| "perform e (RawQuery q) ps f = raw e q f"

definition execute ::
  "'v engine \<Rightarrow> statement \<Rightarrow> 'v rows \<Rightarrow> 'v dbfile \<Rightarrow> sqlite_error + ('v rows \<times> 'v dbfile)" where
  "execute e stmt ps f = (if malformed e stmt then Inl SyntaxOrSchema else perform e stmt ps f)"


section \<open>The Database class\<close>

text \<open>
  The state of a \<open>Database\<close>: the handle \<open>_con\<close>, the file at \<open>_path\<close> (\<open>disk\<close>), and a history of
  what the object did with connections, kept for the claims about when a connection is
  acquired. Opening the file is taken to succeed. An operation returns the exception
  or the value, and the state it leaves.
\<close>

datatype connection = Connection

datatype event = Opened | Closed | Executed statement

record 'v database =
  con :: "connection option"
  disk :: "'v dbfile"
  history :: "event list"

record 'v env =
  chars :: unicode
  types :: constants
  engine :: "'v engine"

type_synonym ('a, 'v) outcome = "(error + 'a) \<times> 'v database"

fun format_columns ::
  "'v env \<Rightarrow> (pystr \<times> pystr) list \<Rightarrow> pystr list \<Rightarrow> error + pystr list" where
  "format_columns w [] col_def = Inr col_def"
| "format_columns w ((col_name, col_type) # rest) col_def =
     (let col_type = upper (chars w) col_type in
      if col_type \<notin> DB_DATA_TYPES_ALLOWED (types w)
      then Inl (ValueError (ColumnTypeNotAllowed col_type (DB_DATA_TYPES_ALLOWED (types w))))
      else case clean_query_injection (chars w) col_name of
             Inl err \<Rightarrow> Inl err
           | Inr col_name \<Rightarrow>
               (case clean_query_injection (chars w) col_type of
                  Inl err \<Rightarrow> Inl err
                | Inr col_type \<Rightarrow>
                    format_columns w rest (col_def @ [col_name @ str '' '' @ col_type])))"

definition format_column_declaration ::
  "'v env \<Rightarrow> (pystr \<times> pystr) list \<Rightarrow> error + pystr" where
  "format_column_declaration w columns =
     (case format_columns w columns [] of
        Inl err \<Rightarrow> Inl err
      | Inr col_def \<Rightarrow> Inr (join (str '', '') col_def))"

definition get_connection :: "'v database \<Rightarrow> 'v database" where
  "get_connection db =
     (if con db \<noteq> None then db
      else db\<lparr>con := Some Connection, history := history db @ [Opened]\<rparr>)"

definition close_connection :: "'v database \<Rightarrow> 'v database" where
  "close_connection db =
     (if con db = None then db
      else db\<lparr>con := None, history := history db @ [Closed]\<rparr>)"

text \<open>
  The block every operation ends with: \<open>get_connection\<close>, then \<open>execute\<close> (or
  \<open>executemany\<close>) inside \<open>with con\<close>, which commits or, on an exception, rolls back and
  lets it through, then \<open>close_connection\<close> in the \<open>finally\<close> clause.
\<close>

definition transact ::
  "'v env \<Rightarrow> 'v database \<Rightarrow> statement \<Rightarrow> 'v rows \<Rightarrow> ('v rows, 'v) outcome" where
  "transact w db stmt ps =
     (let db1 = get_connection db;
          db2 = db1\<lparr>history := history db1 @ [Executed stmt]\<rparr>
      in case execute (engine w) stmt ps (disk db2) of
           Inl err \<Rightarrow> (Inl (SQLiteError err), close_connection db2)
         | Inr (res, f) \<Rightarrow> (Inr res, close_connection (db2\<lparr>disk := f\<rparr>)))"

definition get_columns :: "'v env \<Rightarrow> 'v database \<Rightarrow> pystr \<Rightarrow> ('v rows, 'v) outcome" where
  "get_columns w db table_name =
     (case clean_query_injection (chars w) table_name of
        Inl err \<Rightarrow> (Inl err, db)
      | Inr table_name \<Rightarrow>
          (case transact w db (PragmaTableInfo table_name) [] of
             (Inl err, db') \<Rightarrow> (Inl err, db')
           | (Inr columns, db') \<Rightarrow>
               if columns = []
               then (Inl (CommonSQLError (ColumnRetrievalFailed table_name)), db')
               else (Inr columns, db')))"

definition execute_query ::
  "'v env \<Rightarrow> 'v database \<Rightarrow> pystr \<Rightarrow> ('v rows option, 'v) outcome" where
  "execute_query w db query =
     (case transact w db (RawQuery query) [] of
        (Inl err, db') \<Rightarrow> (Inl err, db')
      | (Inr response, db') \<Rightarrow>
          if response \<noteq> [] then (Inr (Some response), db') else (Inr None, db'))"

definition create_table ::
  "'v env \<Rightarrow> 'v database \<Rightarrow> pystr \<Rightarrow> (pystr \<times> pystr) list \<Rightarrow> (unit, 'v) outcome" where
  "create_table w db table_name columns =
     (case clean_query_injection (chars w) table_name of
        Inl err \<Rightarrow> (Inl err, db)
      | Inr table_name \<Rightarrow>
          (case format_column_declaration w columns of
             Inl err \<Rightarrow> (Inl err, db)
           | Inr col_query \<Rightarrow>
               (case transact w db (CreateTableIfNotExists table_name col_query) [] of
                  (Inl err, db') \<Rightarrow> (Inl err, db')
                | (Inr _, db') \<Rightarrow> (Inr (), db'))))"

definition prepare_insertion_query ::
  "'v env \<Rightarrow> 'v database \<Rightarrow> pystr \<Rightarrow> (statement \<times> nat, 'v) outcome" where
  "prepare_insertion_query w db table_name =
     (case get_columns w db table_name of
        (Inl err, db') \<Rightarrow> (Inl err, db')
      | (Inr columns, db') \<Rightarrow>
          (Inr (InsertValues table_name (join (str '', '') (map (\<lambda>_. str ''?'') columns)),
                length columns), db'))"

definition prepare_insertion ::
  "'v env \<Rightarrow> 'v database \<Rightarrow> pystr \<Rightarrow> 'v list \<Rightarrow> (statement, 'v) outcome" where
  "prepare_insertion w db table_name data =
     (case clean_query_injection (chars w) table_name of
        Inl err \<Rightarrow> (Inl err, db)
      | Inr table_name \<Rightarrow>
          (case prepare_insertion_query w db table_name of
             (Inl err, db') \<Rightarrow> (Inl err, db')
           | (Inr (query, num_cols), db') \<Rightarrow>
               if length data \<noteq> num_cols
               then (Inl (ValueError (DataElementsMismatch (length data) num_cols)), db')
               else (Inr query, db')))"

definition insert_row :: "'v env \<Rightarrow> 'v database \<Rightarrow> pystr \<Rightarrow> 'v list \<Rightarrow> (unit, 'v) outcome" where
  "insert_row w db table_name data =
     (case prepare_insertion w db table_name data of
        (Inl err, db') \<Rightarrow> (Inl err, db')
      | (Inr query, db') \<Rightarrow>
          (case transact w db' query [data] of
             (Inl err, db'') \<Rightarrow> (Inl err, db'')
           | (Inr _, db'') \<Rightarrow> (Inr (), db'')))"

definition insert_many :: "'v env \<Rightarrow> 'v database \<Rightarrow> pystr \<Rightarrow> 'v rows \<Rightarrow> (unit, 'v) outcome" where
  "insert_many w db table_name data =
     (case data of
        [] \<Rightarrow> (Inl IndexError, db)
      | first # _ \<Rightarrow>
          (case prepare_insertion w db table_name first of
             (Inl err, db') \<Rightarrow> (Inl err, db')
           | (Inr query, db') \<Rightarrow>
               (case transact w db' query data of
                  (Inl err, db'') \<Rightarrow> (Inl err, db'')
                | (Inr _, db'') \<Rightarrow> (Inr (), db''))))"


text \<open>
  Reading a history: the number of connections opened, and whether connections are
  opened and closed in turn, with statements executed only while one is open.
\<close>

definition acquisitions :: "event list \<Rightarrow> nat" where
  "acquisitions es = length (filter (\<lambda>e. e = Opened) es)"

fun bracketed :: "bool \<Rightarrow> event list \<Rightarrow> bool" where
  "bracketed is_open [] = (\<not> is_open)"
| "bracketed is_open (Opened # es) = (\<not> is_open \<and> bracketed True es)"
| "bracketed is_open (Closed # es) = (is_open \<and> bracketed False es)"
| "bracketed is_open (Executed stmt # es) = (is_open \<and> bracketed is_open es)"


section \<open>Temporal values and their codecs\<close>

text \<open>
  The three adapters and converters registered with the driver. The classes and the
  text layouts belong to the interpreter's \<open>datetime\<close> module: a date has a year from 1
  to 9999; a \<open>datetime\<close> is a date with a time of day and is taken without time zone (the
  timestamps of the store are local); a \<open>timedelta\<close> is kept normalised as days, seconds
  and microseconds, only the days being signed. \<open>fromisoformat\<close> reads the layouts
  that \<open>isoformat\<close> writes: \<open>YYYY-MM-DD\<close>, then one separator and \<open>HH\<close>, \<open>HH:MM\<close> or
  \<open>HH:MM:SS\<close>, the last with an optional fraction of three or six digits. Any other
  text is refused here; interpreters read a few more, not the same ones in every
  version, and \<open>isoformat\<close> writes none of those. The driver hands a converter the
  UTF-8 bytes of the stored text.
\<close>

fun decimal :: "nat \<Rightarrow> pystr" where
  "decimal n = (if n < 10 then [48 + n] else decimal (n div 10) @ [48 + n mod 10])"

declare decimal.simps [simp del]

definition zero_padded :: "nat \<Rightarrow> nat \<Rightarrow> pystr" where
  "zero_padded k n = replicate (k - length (decimal n)) 48 @ decimal n"

definition str_int :: "int \<Rightarrow> pystr" where
  "str_int i = (if i < 0 then 45 # decimal (nat (- i)) else decimal (nat i))"

definition digits_value :: "pystr \<Rightarrow> nat" where
  "digits_value s = foldl (\<lambda>a c. 10 * a + (c - 48)) 0 s"

definition parse_digits :: "pystr \<Rightarrow> nat option" where
  "parse_digits s =
     (if s \<noteq> [] \<and> (\<forall>c \<in> set s. ascii_digit c) then Some (digits_value s) else None)"

definition utf8_encode_cp :: "nat \<Rightarrow> nat list" where
  "utf8_encode_cp c =
     (if c < 128 then [c]
      else if c < 2048 then [192 + c div 64, 128 + c mod 64]
      else if c < 65536 then [224 + c div 4096, 128 + (c div 64) mod 64, 128 + c mod 64]
      else [240 + c div 262144, 128 + (c div 4096) mod 64, 128 + (c div 64) mod 64,
            128 + c mod 64])"

definition encode :: "pystr \<Rightarrow> nat list" where
  "encode s = concat (map utf8_encode_cp s)"

definition continuation :: "nat \<Rightarrow> bool" where
  "continuation b = (128 \<le> b \<and> b < 192)"

fun utf8_decode :: "nat list \<Rightarrow> pystr option" where
  "utf8_decode [] = Some []"
| "utf8_decode (b # bs) =
     (if b < 128 then map_option ((#) b) (utf8_decode bs)
      else if 192 \<le> b \<and> b < 224 then
        (case bs of
           c1 # r \<Rightarrow>
             (let v = (b - 192) * 64 + (c1 - 128) in
              if continuation c1 \<and> 128 \<le> v then map_option ((#) v) (utf8_decode r) else None)
         | _ \<Rightarrow> None)
      else if 224 \<le> b \<and> b < 240 then
        (case bs of
           c1 # c2 # r \<Rightarrow>
             (let v = (b - 224) * 4096 + (c1 - 128) * 64 + (c2 - 128) in
              if continuation c1 \<and> continuation c2 \<and> 2048 \<le> v
                 \<and> \<not> (55296 \<le> v \<and> v \<le> 57343)
              then map_option ((#) v) (utf8_decode r) else None)
         | _ \<Rightarrow> None)
      else if 240 \<le> b \<and> b < 248 then
        (case bs of
           c1 # c2 # c3 # r \<Rightarrow>
             (let v = (b - 240) * 262144 + (c1 - 128) * 4096 + (c2 - 128) * 64 + (c3 - 128) in
              if continuation c1 \<and> continuation c2 \<and> continuation c3
                 \<and> 65536 \<le> v \<and> v \<le> 1114111
              then map_option ((#) v) (utf8_decode r) else None)
         | _ \<Rightarrow> None)
      else None)"

definition decode :: "nat list \<Rightarrow> error + pystr" where
  "decode val = (case utf8_decode val of None \<Rightarrow> Inl UnicodeDecodeError | Some s \<Rightarrow> Inr s)"

record date =
  year :: nat
  month :: nat
  day :: nat

record datetime = date +
  hour :: nat
  minute :: nat
  second :: nat
  microsecond :: nat

record timedelta =
  days :: int
  seconds :: int
  microseconds :: int

definition is_leap :: "nat \<Rightarrow> bool" where
  "is_leap y = (y mod 4 = 0 \<and> (y mod 100 \<noteq> 0 \<or> y mod 400 = 0))"

definition days_in_month :: "nat \<Rightarrow> nat \<Rightarrow> nat" where
  "days_in_month y m =
     (if m = 2 then (if is_leap y then 29 else 28)
      else if m = 4 \<or> m = 6 \<or> m = 9 \<or> m = 11 then 30 else 31)"

definition valid_date :: "nat \<Rightarrow> nat \<Rightarrow> nat \<Rightarrow> bool" where
  "valid_date y m d =
     (1 \<le> y \<and> y \<le> 9999 \<and> 1 \<le> m \<and> m \<le> 12 \<and> 1 \<le> d \<and> d \<le> days_in_month y m)"

definition valid_time :: "nat \<Rightarrow> nat \<Rightarrow> nat \<Rightarrow> nat \<Rightarrow> bool" where
  "valid_time h mi s us = (h < 24 \<and> mi < 60 \<and> s < 60 \<and> us < 1000000)"

definition is_date :: "date \<Rightarrow> bool" where
  "is_date d = valid_date (year d) (month d) (day d)"

definition is_datetime :: "datetime \<Rightarrow> bool" where
  "is_datetime t =
     (valid_date (year t) (month t) (day t)
      \<and> valid_time (hour t) (minute t) (second t) (microsecond t))"

definition is_timedelta :: "timedelta \<Rightarrow> bool" where
  "is_timedelta td =
     (- 999999999 \<le> days td \<and> days td \<le> 999999999
      \<and> 0 \<le> seconds td \<and> seconds td < 86400
      \<and> 0 \<le> microseconds td \<and> microseconds td < 1000000)"

definition date_isoformat :: "'a date_scheme \<Rightarrow> pystr" where
  "date_isoformat d =
     zero_padded 4 (year d) @ str ''-'' @ zero_padded 2 (month d) @ str ''-''
     @ zero_padded 2 (day d)"

definition time_isoformat :: "datetime \<Rightarrow> pystr" where
  "time_isoformat t =
     zero_padded 2 (hour t) @ str '':'' @ zero_padded 2 (minute t) @ str '':''
     @ zero_padded 2 (second t)
     @ (if microsecond t \<noteq> 0 then str ''.'' @ zero_padded 6 (microsecond t) else [])"

definition datetime_isoformat :: "datetime \<Rightarrow> pystr" where
  "datetime_isoformat t = date_isoformat t @ str ''T'' @ time_isoformat t"

definition parse_date :: "pystr \<Rightarrow> (nat \<times> nat \<times> nat) option" where
  "parse_date s =
     (if length s = 10 \<and> s ! 4 = 45 \<and> s ! 7 = 45 then
        (case (parse_digits (take 4 s), parse_digits (take 2 (drop 5 s)),
               parse_digits (drop 8 s)) of
           (Some y, Some m, Some d) \<Rightarrow> if valid_date y m d then Some (y, m, d) else None
         | _ \<Rightarrow> None)
      else None)"

definition parse_fraction :: "pystr \<Rightarrow> nat option" where
  "parse_fraction f =
     (if length f = 3 then map_option (\<lambda>n. n * 1000) (parse_digits f)
      else if length f = 6 then parse_digits f
      else None)"

definition parse_time :: "pystr \<Rightarrow> (nat \<times> nat \<times> nat \<times> nat) option" where
  "parse_time t =
     (case parse_digits (take 2 t) of
        None \<Rightarrow> None
      | Some h \<Rightarrow>
          if length t < 2 then None
          else if length t = 2 then Some (h, 0, 0, 0)
          else if t ! 2 \<noteq> 58 then None
          else (case parse_digits (take 2 (drop 3 t)) of
             None \<Rightarrow> None
           | Some mi \<Rightarrow>
               if length t < 5 then None
               else if length t = 5 then Some (h, mi, 0, 0)
               else if t ! 5 \<noteq> 58 then None
               else (case parse_digits (take 2 (drop 6 t)) of
                  None \<Rightarrow> None
                | Some sec \<Rightarrow>
                    if length t < 8 then None
                    else if length t = 8 then Some (h, mi, sec, 0)
                    else if t ! 8 \<noteq> 46 then None
                    else map_option (\<lambda>us. (h, mi, sec, us)) (parse_fraction (drop 9 t)))))"

definition date_fromisoformat :: "pystr \<Rightarrow> error + date" where
  "date_fromisoformat s =
     (case parse_date s of
        None \<Rightarrow> Inl (ValueError (InvalidIsoformat s))
      | Some (y, m, d) \<Rightarrow> Inr \<lparr>year = y, month = m, day = d\<rparr>)"

definition datetime_fromisoformat :: "pystr \<Rightarrow> error + datetime" where
  "datetime_fromisoformat s =
     (case parse_date (take 10 s) of
        None \<Rightarrow> Inl (ValueError (InvalidIsoformat s))
      | Some (y, m, d) \<Rightarrow>
          (case (if drop 11 s = [] then Some (0, 0, 0, 0) else parse_time (drop 11 s)) of
             None \<Rightarrow> Inl (ValueError (InvalidIsoformat s))
           | Some (h, mi, sec, us) \<Rightarrow>
               if valid_time h mi sec us
               then Inr \<lparr>year = y, month = m, day = d,
                        hour = h, minute = mi, second = sec, microsecond = us\<rparr>
               else Inl (ValueError (InvalidIsoformat s))))"

text \<open>
  \<open>int\<close> on bytes: surrounding ASCII white space is dropped, one sign is allowed, and
  the digits may be grouped by single underscores.
\<close>

definition ascii_space :: "nat \<Rightarrow> bool" where
  "ascii_space c = (c = 32 \<or> (9 \<le> c \<and> c \<le> 13))"

definition strip :: "pystr \<Rightarrow> pystr" where
  "strip s = rev (dropWhile ascii_space (rev (dropWhile ascii_space s)))"

fun grouped_digits :: "pystr \<Rightarrow> bool" where
  "grouped_digits [] = False"
| "grouped_digits [c] = ascii_digit c"
| "grouped_digits (c # d # r) =
     (ascii_digit c \<and> (if d = 95 then grouped_digits r else grouped_digits (d # r)))"

definition py_int :: "nat list \<Rightarrow> error + int" where
  "py_int val =
     (let t = strip val;
          negative = (t \<noteq> [] \<and> hd t = 45);
          body = (if t \<noteq> [] \<and> (hd t = 45 \<or> hd t = 43) then tl t else t)
      in if grouped_digits body
         then Inr ((if negative then - 1 else 1)
                   * int (digits_value (filter (\<lambda>c. c \<noteq> 95) body)))
         else Inl (ValueError (InvalidLiteral val)))"

fun map_int :: "nat list list \<Rightarrow> error + int list" where
  "map_int [] = Inr []"
| "map_int (p # ps) =
     (case py_int p of
        Inl err \<Rightarrow> Inl err
      | Inr i \<Rightarrow> (case map_int ps of Inl err \<Rightarrow> Inl err | Inr js \<Rightarrow> Inr (i # js)))"

fun split :: "nat \<Rightarrow> pystr \<Rightarrow> pystr list" where
  "split sep [] = [[]]"
| "split sep (c # cs) =
     (if c = sep then [] # split sep cs
      else case split sep cs of
             [] \<Rightarrow> [[c]]
           | p # ps \<Rightarrow> (c # p) # ps)"

text \<open>The constructor \<open>timedelta(days, seconds, microseconds)\<close> carries into the larger unit.\<close>

definition Timedelta :: "int \<Rightarrow> int \<Rightarrow> int \<Rightarrow> error + timedelta" where
  "Timedelta d s us =
     (let s1 = s + us div 1000000;
          d1 = d + s1 div 86400
      in if d1 < - 999999999 \<or> 999999999 < d1 then Inl OverflowError
         else Inr \<lparr>days = d1, seconds = s1 mod 86400, microseconds = us mod 1000000\<rparr>)"

definition adapt_date_iso :: "date \<Rightarrow> pystr" where
  "adapt_date_iso val = date_isoformat val"

definition adapt_datetime_iso :: "datetime \<Rightarrow> pystr" where
  "adapt_datetime_iso val = datetime_isoformat val"

definition adapt_timedelta :: "timedelta \<Rightarrow> pystr" where
  "adapt_timedelta td =
     str_int (days td) @ str '','' @ str_int (seconds td) @ str '','' @ str_int (microseconds td)"

definition convert_date :: "nat list \<Rightarrow> error + date" where
  "convert_date val =
     (case decode val of Inl err \<Rightarrow> Inl err | Inr s \<Rightarrow> date_fromisoformat s)"

definition convert_datetime :: "nat list \<Rightarrow> error + datetime" where
  "convert_datetime val =
     (case decode val of Inl err \<Rightarrow> Inl err | Inr s \<Rightarrow> datetime_fromisoformat s)"

definition convert_timedelta :: "nat list \<Rightarrow> error + timedelta" where
  "convert_timedelta val =
     (case map_int (split 44 val) of
        Inl err \<Rightarrow> Inl err
      | Inr [n_days, secs, mic_secs] \<Rightarrow> Timedelta n_days secs mic_secs
      | Inr parts \<Rightarrow> Inl (ValueError (UnpackMismatch (length parts))))"


section \<open>A small instance\<close>

text \<open>
  One concrete choice of the parameters, on which the operations can be evaluated: the
  ASCII character tables, three base types with two constraints, and an engine that
  refuses a table name which is empty or holds a space, derives one column from each
  comma-separated part of a column clause and describes it by that text, and accepts
  every row.
\<close>

definition demo_constants :: constants where
  "demo_constants =
     \<lparr>DB_DATA_TYPES = set (map str [''INTEGER'', ''TEXT'', ''DATETIME'']),
      DB_SUPPORTED_COL_CONSTRAINTS = set (map str [''PRIMARY KEY'', ''NOT NULL''])\<rparr>"

definition unusable_name :: "pystr \<Rightarrow> bool" where
  "unusable_name n = (n = [] \<or> 32 \<in> set n)"

definition demo_malformed :: "statement \<Rightarrow> bool" where
  "demo_malformed stmt =
     (case stmt of
        CreateTableIfNotExists n q \<Rightarrow> unusable_name n
      | PragmaTableInfo n \<Rightarrow> unusable_name n
      | InsertValues n ph \<Rightarrow> unusable_name n
      | RawQuery q \<Rightarrow> False)"

definition demo_engine :: "pystr engine" where
  "demo_engine =
     \<lparr>malformed = demo_malformed,
      declare_columns = (\<lambda>q. Some (map (\<lambda>c. [c]) (split 44 q))),
      refuses_row = (\<lambda>cols stored d. None),
      raw = (\<lambda>q f. Inr ([], f))\<rparr>"

definition demo_env :: "pystr env" where
  "demo_env = \<lparr>chars = ascii_tables, types = demo_constants, engine = demo_engine\<rparr>"

definition new_database :: "'v database" where
  "new_database = \<lparr>con = None, disk = Map.empty, history = []\<rparr>"


text \<open>A database whose file holds the table \<open>events\<close> with two columns and no rows.\<close>

definition demo_database :: "pystr database" where
  "demo_database =
     \<lparr>con = None,
      disk = [str ''events'' \<mapsto> ([[str ''id INTEGER''], [str ''occurred_at DATETIME'']], [])],
      history = []\<rparr>"


section \<open>Properties of the sanitizer\<close>

lemma ascii_fold_small: "ascii_fold c = l \<Longrightarrow> l < 128 \<Longrightarrow> c < 128"
  by (auto simp: ascii_fold_def split: if_splits)

lemma match_here_of_fold:
  "map ascii_fold (take (length kw) t) = kw \<Longrightarrow> \<forall>l \<in> set kw. l < 128 \<Longrightarrow> match_here u kw t"
proof (induction u kw t rule: match_here.induct)
  case (3 u l ls c cs)
  then have "ascii_fold c = l" "l < 128" by auto
  then have "c < 128" by (rule ascii_fold_small)
  with \<open>ascii_fold c = l\<close> have "literal_ignore u l c"
    by (simp add: literal_ignore_def lower_cp_def)
  with 3 show ?case by auto
qed auto

lemma fold_of_match_here:
  "match_here u kw t \<Longrightarrow> \<forall>c \<in> set t. c < 128 \<Longrightarrow> map ascii_fold (take (length kw) t) = kw"
proof (induction u kw t rule: match_here.induct)
  case (3 u l ls c cs)
  then have "c < 128" by simp
  then have "ascii_fold c < 383" by (auto simp: ascii_fold_def)
  with 3 \<open>c < 128\<close> show ?case
    by (auto simp: literal_ignore_def lower_cp_def)
qed auto

lemma set_tails: "t \<in> set (tails s) \<Longrightarrow> set t \<subseteq> set s"
  by (induction s) auto

lemma banned_keywords_lower:
  "kw \<in> set banned_keywords \<Longrightarrow> map ascii_fold kw = kw \<and> (\<forall>l \<in> set kw. l < 128)"
  by (auto simp: banned_keywords_def str_def ascii_fold_def)

lemma search_of_contains:
  assumes "kw \<in> set banned_keywords" "contains_ci kw s"
  shows "search_literal u kw s"
  using assms banned_keywords_lower[OF assms(1)] match_here_of_fold[of kw _ u]
  unfolding contains_ci_def search_literal_def by auto

lemma contains_of_search:
  assumes "kw \<in> set banned_keywords" "search_literal u kw s" "\<forall>c \<in> set s. c < 128"
  shows "contains_ci kw s"
proof -
  from assms(2) obtain t where t: "t \<in> set (tails s)" "match_here u kw t"
    by (auto simp: search_literal_def)
  with assms(3) set_tails[OF t(1)] have "\<forall>c \<in> set t. c < 128" by auto
  with t(2) have "map ascii_fold (take (length kw) t) = kw" by (rule fold_of_match_here)
  with banned_keywords_lower[OF assms(1)] t(1) show ?thesis by (auto simp: contains_ci_def)
qed

lemma word_cp_ascii: "ascii_letter c \<or> ascii_digit c \<or> c = 95 \<Longrightarrow> word_cp u c \<and> c < 128"
  by (auto simp: word_cp_def ascii_letter_def ascii_digit_def)

lemma plain_identifier_clean:
  assumes "plain_identifier s" "\<not> contains_banned s"
  shows "clean_query_injection u s = Inr s"
proof -
  from assms(1) obtain c cs where s: "s = c # cs" "ascii_letter c"
    "\<forall>d \<in> set cs. ascii_letter d \<or> ascii_digit d \<or> d = 95"
    by (cases s) (auto simp: plain_identifier_def)
  then have all: "\<forall>d \<in> set s. word_cp u d \<and> d < 128"
    using word_cp_ascii by auto
  have 1: "\<not> leading_digit_or_underscore s"
    using s by (auto simp: leading_digit_or_underscore_def ascii_letter_def ascii_digit_def)
  have 2: "\<not> unallowed_character u s"
    using all by (auto simp: unallowed_character_def)
  have 3: "\<not> (\<exists>kw \<in> set banned_keywords. search_literal u kw s)"
    using assms(2) all contains_of_search unfolding contains_banned_def by blast
  from 1 2 3 show ?thesis
    by (simp add: clean_query_injection_def DB_INJECTION_PATTERN_search_def)
qed

text \<open>
  Claim C1. A string that contains one of the seven keywords in any letter case, or is a
  non-empty run of digits and underscores, or holds a character that is neither a word
  character nor a space, is refused with the \<open>ValueError\<close> that names it. A string made
  of an ASCII letter followed by ASCII letters, digits and underscores (the language of
  \<open>^[A-Za-z][A-Za-z0-9_]*$\<close>) that contains no keyword is returned unchanged.
\<close>

theorem clean_query_injection_spec:
  "(contains_banned s \<or> digits_underscores_only s \<or> unallowed_character u s
      \<longrightarrow> clean_query_injection u s = Inl (ValueError (UnallowedCharacters s)))
   \<and> (plain_identifier s \<and> \<not> contains_banned s \<longrightarrow> clean_query_injection u s = Inr s)"
proof (intro conjI impI)
  assume "contains_banned s \<or> digits_underscores_only s \<or> unallowed_character u s"
  then have "DB_INJECTION_PATTERN_search u s"
  proof (elim disjE)
    assume "contains_banned s"
    then show ?thesis
      unfolding contains_banned_def DB_INJECTION_PATTERN_search_def
      using search_of_contains by blast
  next
    assume "digits_underscores_only s"
    then have "leading_digit_or_underscore s"
      by (cases s) (auto simp: digits_underscores_only_def leading_digit_or_underscore_def)
    then show ?thesis by (simp add: DB_INJECTION_PATTERN_search_def)
  next
    assume "unallowed_character u s"
    then show ?thesis by (simp add: DB_INJECTION_PATTERN_search_def)
  qed
  then show "clean_query_injection u s = Inl (ValueError (UnallowedCharacters s))"
    by (simp add: clean_query_injection_def)
next
  assume "plain_identifier s \<and> \<not> contains_banned s"
  then show "clean_query_injection u s = Inr s"
    using plain_identifier_clean by blast
qed

theorem clean_query_injection_spec_witness:
  "contains_banned (str ''DropTable'')
   \<and> clean_query_injection ascii_tables (str ''DropTable'')
       = Inl (ValueError (UnallowedCharacters (str ''DropTable'')))
   \<and> plain_identifier (str ''events_2'') \<and> \<not> contains_banned (str ''events_2'')
   \<and> clean_query_injection ascii_tables (str ''events_2'') = Inr (str ''events_2'')"
proof -
  have a: "contains_banned (str ''DropTable'')"
    by (simp add: contains_banned_def banned_keywords_def contains_ci_def str_def
        ascii_fold_def)
  have b: "plain_identifier (str ''events_2'') \<and> \<not> contains_banned (str ''events_2'')"
    by (simp add: plain_identifier_def contains_banned_def banned_keywords_def
        contains_ci_def str_def ascii_fold_def ascii_letter_def ascii_digit_def)
  show ?thesis
    using a b clean_query_injection_spec [of "str ''DropTable''" ascii_tables]
      clean_query_injection_spec [of "str ''events_2''" ascii_tables]
    by blast
qed


section \<open>Properties of the codecs\<close>

lemma digits_value_snoc: "digits_value (xs @ [c]) = 10 * digits_value xs + (c - 48)"
  by (simp add: digits_value_def)

lemma decimal_digits: "c \<in> set (decimal n) \<Longrightarrow> ascii_digit c"
proof (induction n arbitrary: c rule: decimal.induct)
  case (1 n)
  show ?case
  proof (cases "n < 10")
    case True
    with 1(2) show ?thesis by (simp add: decimal.simps[of n] ascii_digit_def)
  next
    case False
    have "n mod 10 < 10" by simp
    with False 1 show ?thesis
      by (auto simp: decimal.simps[of n] ascii_digit_def)
  qed
qed

lemma decimal_nonempty: "decimal n \<noteq> []"
  by (subst decimal.simps) simp

lemma digits_value_decimal: "digits_value (decimal n) = n"
proof (induction n rule: decimal.induct)
  case (1 n)
  show ?case
  proof (cases "n < 10")
    case True
    then show ?thesis by (simp add: decimal.simps[of n] digits_value_def)
  next
    case False
    with 1 show ?thesis
      by (simp add: decimal.simps[of n] digits_value_snoc)
  qed
qed

lemma length_decimal: "n < 10 ^ k \<Longrightarrow> 0 < k \<Longrightarrow> length (decimal n) \<le> k"
proof (induction n arbitrary: k rule: decimal.induct)
  case (1 n)
  show ?case
  proof (cases "n < 10")
    case True
    with 1(3) show ?thesis by (simp add: decimal.simps[of n])
  next
    case False
    with 1(2,3) obtain j where k: "k = Suc j" by (cases k) auto
    with False 1(2) have "0 < j" by (cases j) auto
    from 1(2) k have "n div 10 < 10 ^ j" by (simp add: less_mult_imp_div_less mult.commute)
    with 1(1)[OF False this \<open>0 < j\<close>] False k show ?thesis
      by (simp add: decimal.simps[of n])
  qed
qed

lemma digits_value_zeros: "digits_value (replicate j 48 @ s) = digits_value s"
  by (induction j) (simp_all add: digits_value_def)

lemma parse_zero_padded: "parse_digits (zero_padded k n) = Some n"
  using decimal_digits decimal_nonempty
  by (auto simp: parse_digits_def zero_padded_def digits_value_zeros digits_value_decimal
      ascii_digit_def)

lemma length_zero_padded: "n < 10 ^ k \<Longrightarrow> 0 < k \<Longrightarrow> length (zero_padded k n) = k"
  using length_decimal[of n k] by (simp add: zero_padded_def)

lemma zero_padded_ascii: "c \<in> set (zero_padded k n) \<Longrightarrow> ascii_digit c"
  using decimal_digits by (auto simp: zero_padded_def ascii_digit_def)

lemma ascii_round_trip:
  "\<forall>c \<in> set s. c < 128 \<Longrightarrow> encode s = s \<and> utf8_decode s = Some s"
  by (induction s) (auto simp: encode_def utf8_encode_cp_def)

lemma decode_encode_ascii: "\<forall>c \<in> set s. c < 128 \<Longrightarrow> decode (encode s) = Inr s"
  by (simp add: ascii_round_trip decode_def)


lemma parse_date_layout:
  assumes "length a = 4" "length b = 2" "length c = 2"
    "parse_digits a = Some y" "parse_digits b = Some m" "parse_digits c = Some d"
    "valid_date y m d"
  shows "parse_date (a @ 45 # b @ 45 # c) = Some (y, m, d)"
  using assms by (simp add: parse_date_def nth_append)

lemma valid_date_bounds: "valid_date y m d \<Longrightarrow> y < 10 ^ 4 \<and> m < 10 ^ 2 \<and> d < 10 ^ 2"
  by (auto simp: valid_date_def days_in_month_def split: if_splits)

lemma date_isoformat_layout:
  "date_isoformat d
     = zero_padded 4 (year d) @ 45 # zero_padded 2 (month d) @ 45 # zero_padded 2 (day d)"
  by (simp add: date_isoformat_def str_def)

lemma parse_date_isoformat:
  assumes "valid_date (year d) (month d) (day d)"
  shows "parse_date (date_isoformat d) = Some (year d, month d, day d)"
  unfolding date_isoformat_layout
  using assms valid_date_bounds[OF assms]
  by (intro parse_date_layout) (simp_all add: length_zero_padded parse_zero_padded)

lemma length_date_isoformat:
  "valid_date (year d) (month d) (day d) \<Longrightarrow> length (date_isoformat d) = 10"
  using valid_date_bounds[of "year d" "month d" "day d"]
  by (simp add: date_isoformat_layout length_zero_padded)

lemma ascii_digit_small: "ascii_digit c \<Longrightarrow> c < 128"
  by (simp add: ascii_digit_def)

lemma date_isoformat_ascii: "c \<in> set (date_isoformat d) \<Longrightarrow> c < 128"
  using zero_padded_ascii ascii_digit_small by (auto simp: date_isoformat_layout)

lemma convert_date_round_trip:
  assumes "is_date d"
  shows "convert_date (encode (adapt_date_iso d)) = Inr d"
proof -
  have "decode (encode (date_isoformat d)) = Inr (date_isoformat d)"
    using date_isoformat_ascii by (intro decode_encode_ascii) blast
  moreover have "parse_date (date_isoformat d) = Some (year d, month d, day d)"
    using assms by (simp add: is_date_def parse_date_isoformat)
  ultimately show ?thesis
    by (simp add: convert_date_def adapt_date_iso_def date_fromisoformat_def)
qed


lemma parse_time_seconds:
  assumes "length a = 2" "length b = 2" "length c = 2"
    "parse_digits a = Some h" "parse_digits b = Some mi" "parse_digits c = Some sec"
  shows "parse_time (a @ 58 # b @ 58 # c) = Some (h, mi, sec, 0)"
  using assms by (simp add: parse_time_def nth_append)

lemma parse_time_fraction:
  assumes "length a = 2" "length b = 2" "length c = 2" "length f = 6"
    "parse_digits a = Some h" "parse_digits b = Some mi" "parse_digits c = Some sec"
    "parse_digits f = Some us"
  shows "parse_time (a @ 58 # b @ 58 # c @ 46 # f) = Some (h, mi, sec, us)"
  using assms by (simp add: parse_time_def parse_fraction_def nth_append)

lemma valid_time_bounds:
  "valid_time h mi s us \<Longrightarrow> h < 10 ^ 2 \<and> mi < 10 ^ 2 \<and> s < 10 ^ 2 \<and> us < 10 ^ 6"
  by (auto simp: valid_time_def)

lemma time_isoformat_layout:
  "time_isoformat t =
     zero_padded 2 (hour t) @ 58 # zero_padded 2 (minute t) @ 58 # zero_padded 2 (second t)
     @ (if microsecond t \<noteq> 0 then 46 # zero_padded 6 (microsecond t) else [])"
  by (simp add: time_isoformat_def str_def)

lemma datetime_isoformat_layout:
  "datetime_isoformat t = date_isoformat t @ 84 # time_isoformat t"
  by (simp add: datetime_isoformat_def str_def)

lemma parse_time_isoformat:
  assumes "valid_time (hour t) (minute t) (second t) (microsecond t)"
  shows "parse_time (time_isoformat t) = Some (hour t, minute t, second t, microsecond t)"
proof (cases "microsecond t = 0")
  case True
  then show ?thesis
    unfolding time_isoformat_layout
    using valid_time_bounds[OF assms]
    by (simp add: parse_time_seconds length_zero_padded parse_zero_padded)
next
  case False
  then show ?thesis
    unfolding time_isoformat_layout
    using valid_time_bounds[OF assms]
    by (simp add: parse_time_fraction length_zero_padded parse_zero_padded)
qed

lemma time_isoformat_nonempty: "time_isoformat t \<noteq> []"
  by (simp add: time_isoformat_layout)

lemma time_isoformat_ascii: "c \<in> set (time_isoformat t) \<Longrightarrow> c < 128"
  using zero_padded_ascii ascii_digit_small
  by (auto simp: time_isoformat_layout split: if_splits)

lemma convert_datetime_round_trip:
  assumes "is_datetime t"
  shows "convert_datetime (encode (adapt_datetime_iso t)) = Inr t"
proof -
  from assms have vd: "valid_date (year t) (month t) (day t)"
    and vt: "valid_time (hour t) (minute t) (second t) (microsecond t)"
    by (simp_all add: is_datetime_def)
  have "decode (encode (datetime_isoformat t)) = Inr (datetime_isoformat t)"
    using date_isoformat_ascii time_isoformat_ascii
    by (intro decode_encode_ascii) (auto simp: datetime_isoformat_layout)
  moreover have "take 10 (datetime_isoformat t) = date_isoformat t"
    "drop 11 (datetime_isoformat t) = time_isoformat t"
    using length_date_isoformat[OF vd] by (simp_all add: datetime_isoformat_layout)
  ultimately show ?thesis
    using parse_date_isoformat[OF vd] parse_time_isoformat[OF vt] vt time_isoformat_nonempty
    by (simp add: convert_datetime_def adapt_datetime_iso_def datetime_fromisoformat_def)
qed


lemma split_no_sep: "sep \<notin> set a \<Longrightarrow> split sep a = [a]"
  by (induction a) auto

lemma split_append: "sep \<notin> set a \<Longrightarrow> split sep (a @ sep # rest) = a # split sep rest"
  by (induction a) auto

lemma split_three:
  "sep \<notin> set a \<Longrightarrow> sep \<notin> set b \<Longrightarrow> sep \<notin> set c \<Longrightarrow>
   split sep (a @ sep # b @ sep # c) = [a, b, c]"
  by (simp add: split_append split_no_sep)

lemma str_int_chars: "c \<in> set (str_int i) \<Longrightarrow> c = 45 \<or> ascii_digit c"
  using decimal_digits by (auto simp: str_int_def split: if_splits)

lemma str_int_no_comma: "44 \<notin> set (str_int i)"
  using str_int_chars[of 44 i] by (auto simp: ascii_digit_def)

lemma str_int_ascii: "c \<in> set (str_int i) \<Longrightarrow> c < 128"
  using str_int_chars[of c i] by (auto simp: ascii_digit_def)

lemma dropWhile_digits: "s \<noteq> [] \<Longrightarrow> \<not> ascii_space (hd s) \<Longrightarrow> dropWhile ascii_space s = s"
  by (cases s) auto

lemma strip_id:
  assumes "s \<noteq> []" "\<not> ascii_space (hd s)" "\<not> ascii_space (last s)"
  shows "strip s = s"
proof -
  have "dropWhile ascii_space s = s" using assms by (simp add: dropWhile_digits)
  moreover have "dropWhile ascii_space (rev s) = rev s"
    using assms by (intro dropWhile_digits) (simp_all add: hd_rev)
  ultimately show ?thesis by (simp add: strip_def)
qed

lemma digit_not_space: "ascii_digit c \<Longrightarrow> \<not> ascii_space c \<and> c \<noteq> 95 \<and> c \<noteq> 45 \<and> c \<noteq> 43"
  by (auto simp: ascii_digit_def ascii_space_def)

lemma grouped_digits_all:
  "s \<noteq> [] \<Longrightarrow> \<forall>c \<in> set s. ascii_digit c \<Longrightarrow> grouped_digits s"
  by (induction s rule: grouped_digits.induct) (auto dest: digit_not_space)

lemma filter_digits: "\<forall>c \<in> set s. ascii_digit c \<Longrightarrow> filter (\<lambda>c. c \<noteq> 95) s = s"
  by (induction s) (auto dest: digit_not_space)

lemma strip_decimal: "strip (decimal n) = decimal n"
proof -
  have "hd (decimal n) \<in> set (decimal n)" "last (decimal n) \<in> set (decimal n)"
    using decimal_nonempty by simp_all
  then show ?thesis
    using decimal_nonempty decimal_digits digit_not_space by (intro strip_id) blast+
qed

lemma py_int_decimal: "py_int (decimal n) = Inr (int n)"
proof -
  have h: "hd (decimal n) \<in> set (decimal n)" using decimal_nonempty by simp
  then have "hd (decimal n) \<noteq> 45 \<and> hd (decimal n) \<noteq> 43"
    using decimal_digits digit_not_space by blast
  moreover have "grouped_digits (decimal n)"
    using decimal_nonempty decimal_digits by (intro grouped_digits_all) blast+
  moreover have "filter (\<lambda>c. c \<noteq> 95) (decimal n) = decimal n"
    using decimal_digits by (intro filter_digits) blast
  ultimately show ?thesis
    by (simp add: py_int_def strip_decimal Let_def digits_value_decimal)
qed

lemma py_int_minus_decimal: "py_int (45 # decimal n) = Inr (- int n)"
proof -
  have "last (decimal n) \<in> set (decimal n)" using decimal_nonempty by simp
  then have l: "\<not> ascii_space (last (decimal n))"
    using decimal_digits digit_not_space by blast
  have "strip (45 # decimal n) = 45 # decimal n"
    using l decimal_nonempty by (intro strip_id) (simp_all add: ascii_space_def)
  moreover have "grouped_digits (decimal n)"
    using decimal_nonempty decimal_digits by (intro grouped_digits_all) blast+
  moreover have "filter (\<lambda>c. c \<noteq> 95) (decimal n) = decimal n"
    using decimal_digits by (intro filter_digits) blast
  ultimately show ?thesis
    by (simp add: py_int_def Let_def digits_value_decimal)
qed

lemma py_int_str_int: "py_int (str_int i) = Inr i"
  by (simp add: str_int_def py_int_decimal py_int_minus_decimal)

lemma Timedelta_normalised:
  "is_timedelta td \<Longrightarrow> Timedelta (days td) (seconds td) (microseconds td) = Inr td"
  by (simp add: Timedelta_def is_timedelta_def Let_def)

lemma adapt_timedelta_layout:
  "adapt_timedelta td
     = str_int (days td) @ 44 # str_int (seconds td) @ 44 # str_int (microseconds td)"
  by (simp add: adapt_timedelta_def str_def)

lemma split_adapt_timedelta:
  "split 44 (encode (adapt_timedelta td))
     = [str_int (days td), str_int (seconds td), str_int (microseconds td)]"
proof -
  have "\<forall>c \<in> set (adapt_timedelta td). c < 128"
    using str_int_ascii by (auto simp: adapt_timedelta_layout)
  then have "encode (adapt_timedelta td) = adapt_timedelta td"
    by (simp add: ascii_round_trip)
  then show ?thesis
    by (simp add: adapt_timedelta_layout split_three str_int_no_comma)
qed

lemma convert_timedelta_round_trip:
  assumes "is_timedelta td"
  shows "convert_timedelta (encode (adapt_timedelta td)) = Inr td"
  using Timedelta_normalised[OF assms]
  by (simp add: convert_timedelta_def split_adapt_timedelta py_int_str_int)

text \<open>
  Claim C2. Decoding what was encoded gives the value back: for every date (years 1 to
  9999), for every timestamp with its microseconds, and for every duration, zero and
  negative ones included. The encoded duration splits at the commas into the decimal
  texts of days, seconds and microseconds, in this order.
\<close>

theorem codecs_round_trip:
  "(is_date d \<longrightarrow> convert_date (encode (adapt_date_iso d)) = Inr d)
   \<and> (is_datetime t \<longrightarrow> convert_datetime (encode (adapt_datetime_iso t)) = Inr t)
   \<and> (is_timedelta td \<longrightarrow>
        convert_timedelta (encode (adapt_timedelta td)) = Inr td
        \<and> split 44 (encode (adapt_timedelta td))
            = [str_int (days td), str_int (seconds td), str_int (microseconds td)])"
  using convert_date_round_trip convert_datetime_round_trip convert_timedelta_round_trip
    split_adapt_timedelta
  by blast

theorem codecs_round_trip_witness:
  "is_date \<lparr>year = 2024, month = 2, day = 29\<rparr>
   \<and> convert_date (encode (adapt_date_iso \<lparr>year = 2024, month = 2, day = 29\<rparr>))
       = Inr \<lparr>year = 2024, month = 2, day = 29\<rparr>
   \<and> is_datetime \<lparr>year = 999, month = 12, day = 31,
                   hour = 23, minute = 59, second = 7, microsecond = 1\<rparr>
   \<and> convert_datetime (encode (adapt_datetime_iso
         \<lparr>year = 999, month = 12, day = 31,
          hour = 23, minute = 59, second = 7, microsecond = 1\<rparr>))
       = Inr \<lparr>year = 999, month = 12, day = 31,
              hour = 23, minute = 59, second = 7, microsecond = 1\<rparr>
   \<and> is_timedelta \<lparr>days = - 1, seconds = 86399, microseconds = 0\<rparr>
   \<and> convert_timedelta (encode (adapt_timedelta
         \<lparr>days = - 1, seconds = 86399, microseconds = 0\<rparr>))
       = Inr \<lparr>days = - 1, seconds = 86399, microseconds = 0\<rparr>"
proof -
  have a: "is_date \<lparr>year = 2024, month = 2, day = 29\<rparr>"
    by (simp add: is_date_def valid_date_def days_in_month_def is_leap_def)
  have b: "is_datetime \<lparr>year = 999, month = 12, day = 31,
                   hour = 23, minute = 59, second = 7, microsecond = 1\<rparr>"
    by (simp add: is_datetime_def valid_date_def valid_time_def days_in_month_def)
  have c: "is_timedelta \<lparr>days = - 1, seconds = 86399, microseconds = 0\<rparr>"
    by (simp add: is_timedelta_def)
  show ?thesis
    using a b c
      codecs_round_trip [of "\<lparr>year = 2024, month = 2, day = 29\<rparr>"
        "\<lparr>year = 999, month = 12, day = 31,
          hour = 23, minute = 59, second = 7, microsecond = 1\<rparr>"
        "\<lparr>days = - 1, seconds = 86399, microseconds = 0\<rparr>"]
    by blast
qed


section \<open>Properties of the operations\<close>

subsection \<open>The closing block and the reflection of columns\<close>

lemma transact_closed: "transact w db stmt ps = (r, db') \<Longrightarrow> con db' = None"
  by (auto simp: transact_def get_connection_def close_connection_def Let_def
      split: sum.splits prod.splits)

lemma transact_history:
  "transact w db stmt ps = (r, db') \<Longrightarrow> con db = None \<Longrightarrow>
   history db' = history db @ [Opened, Executed stmt, Closed]"
  by (auto simp: transact_def get_connection_def close_connection_def Let_def
      split: sum.splits prod.splits)

lemma transact_error:
  "transact w db stmt ps = (Inl err, db') \<Longrightarrow> (\<exists>e. err = SQLiteError e) \<and> disk db' = disk db"
  by (auto simp: transact_def get_connection_def close_connection_def Let_def
      split: sum.splits prod.splits)

lemma transact_no_ValueError: "transact w db stmt ps = (Inl (ValueError m), db') \<Longrightarrow> False"
  by (auto dest: transact_error)

lemma transact_pragma_disk:
  "transact w db (PragmaTableInfo t) ps = (r, db') \<Longrightarrow> disk db' = disk db"
  by (auto simp: transact_def get_connection_def close_connection_def Let_def execute_def
      split: sum.splits prod.splits option.splits if_splits)

lemma transact_create:
  assumes "\<not> malformed (engine w) (CreateTableIfNotExists t q)"
    "declare_columns (engine w) q = Some cs" "cs \<noteq> []"
  shows "\<exists>db'. transact w db (CreateTableIfNotExists t q) ps = (Inr [], db')
    \<and> disk db' = (if disk db (sql_fold t) \<noteq> None then disk db
                   else (disk db)(sql_fold t \<mapsto> (cs, [])))"
  using assms
  by (auto simp: transact_def execute_def get_connection_def close_connection_def Let_def)

lemma clean_query_injection_same: "clean_query_injection u t = Inr t' \<Longrightarrow> t' = t"
  by (auto simp: clean_query_injection_def split: if_splits)

lemma clean_cases:
  "clean_query_injection u t = Inr t \<or> clean_query_injection u t = Inl (ValueError (UnallowedCharacters t))"
  by (simp add: clean_query_injection_def)

lemma get_columns_disk: "get_columns w db t = (r, db') \<Longrightarrow> disk db' = disk db"
  by (auto simp: get_columns_def split: sum.splits prod.splits if_splits
      dest: transact_pragma_disk)

lemma get_columns_closed: "get_columns w db t = (r, db') \<Longrightarrow> con db = None \<Longrightarrow> con db' = None"
  by (auto simp: get_columns_def split: sum.splits prod.splits if_splits
      dest: transact_closed)

lemma get_columns_history:
  "get_columns w db t = (r, db') \<Longrightarrow> con db = None \<Longrightarrow>
   history db' = history db
   \<or> history db' = history db @ [Opened, Executed (PragmaTableInfo t), Closed]"
  by (auto simp: get_columns_def split: sum.splits prod.splits if_splits
      dest: transact_history clean_query_injection_same)

lemma get_columns_ok:
  "get_columns w db t = (Inr cols, db') \<Longrightarrow>
   clean_query_injection (chars w) t = Inr t
   \<and> (con db = None \<longrightarrow> history db' = history db @ [Opened, Executed (PragmaTableInfo t), Closed])"
  by (auto simp: get_columns_def split: sum.splits prod.splits if_splits
      dest: transact_history clean_query_injection_same)

lemma upper_FOOBAR: "upper u (str ''FOOBAR'') = str ''FOOBAR''"
  by (simp add: upper_def upper_cp_def str_def)

subsection \<open>The small instance evaluated\<close>

lemma demo_allowed: "str ''FOOBAR'' \<notin> DB_DATA_TYPES_ALLOWED (types demo_env)"
  by (auto simp: demo_env_def demo_constants_def DB_DATA_TYPES_ALLOWED_def str_def)

lemma demo_clean_events: "clean_query_injection ascii_tables (str ''events'') = Inr (str ''events'')"
  by (simp add: clean_query_injection_def DB_INJECTION_PATTERN_search_def
      leading_digit_or_underscore_def unallowed_character_def search_literal_def
      banned_keywords_def str_def ascii_digit_def word_cp_def ascii_letter_def
      literal_ignore_def lower_cp_def ascii_fold_def ascii_tables_def)

lemma demo_clean_id: "clean_query_injection ascii_tables (str ''id'') = Inr (str ''id'')"
  by (simp add: clean_query_injection_def DB_INJECTION_PATTERN_search_def
      leading_digit_or_underscore_def unallowed_character_def search_literal_def
      banned_keywords_def str_def ascii_digit_def word_cp_def ascii_letter_def
      literal_ignore_def lower_cp_def ascii_fold_def ascii_tables_def)

lemma demo_clean_INTEGER:
  "clean_query_injection ascii_tables (str ''INTEGER'') = Inr (str ''INTEGER'')"
  by (simp add: clean_query_injection_def DB_INJECTION_PATTERN_search_def
      leading_digit_or_underscore_def unallowed_character_def search_literal_def
      banned_keywords_def str_def ascii_digit_def word_cp_def ascii_letter_def
      literal_ignore_def lower_cp_def ascii_fold_def ascii_tables_def)

lemma demo_clean_my_table:
  "clean_query_injection ascii_tables (str ''my table'') = Inr (str ''my table'')"
  by (simp add: clean_query_injection_def DB_INJECTION_PATTERN_search_def
      leading_digit_or_underscore_def unallowed_character_def search_literal_def
      banned_keywords_def str_def ascii_digit_def word_cp_def ascii_letter_def
      literal_ignore_def lower_cp_def ascii_fold_def ascii_tables_def)

lemma demo_format:
  "format_column_declaration demo_env [(str ''id'', str ''integer'')] = Inr (str ''id INTEGER'')"
proof -
  have u: "upper ascii_tables (str ''integer'') = str ''INTEGER''"
    by (simp add: upper_def upper_cp_def str_def)
  have a: "str ''INTEGER'' \<in> DB_DATA_TYPES_ALLOWED demo_constants"
    by (simp add: DB_DATA_TYPES_ALLOWED_def demo_constants_def)
  show ?thesis
    using u a demo_clean_id demo_clean_INTEGER
    by (simp add: format_column_declaration_def demo_env_def) (simp add: str_def)
qed

lemma demo_get_columns:
  "get_columns demo_env demo_database (str ''events'')
     = (Inr [[str ''id INTEGER''], [str ''occurred_at DATETIME'']],
        demo_database\<lparr>history := [Opened, Executed (PragmaTableInfo (str ''events'')), Closed]\<rparr>)"
  using demo_clean_events
  by (simp add: get_columns_def transact_def execute_def get_connection_def
      close_connection_def Let_def demo_env_def demo_engine_def demo_malformed_def
      unusable_name_def demo_database_def sql_fold_def ascii_fold_def str_def)

subsection \<open>Creating a table\<close>

text \<open>
  Claim C3, as the code has it. With \<open>FOOBAR\<close> outside the allowed vocabulary,
  \<open>create_table(t, {c: "FOOBAR"})\<close> raises a \<open>ValueError\<close> for every table name and leaves
  the database as it was: no connection was opened, nothing was executed, no table exists
  that did not before. When the table name passes the sanitizer, the message is the one
  that lists the allowed vocabulary. (The table name is sanitized first, so a name the
  sanitizer refuses gives the sanitizer's message instead.)
\<close>

theorem create_table_FOOBAR:
  assumes "str ''FOOBAR'' \<notin> DB_DATA_TYPES_ALLOWED (types w)"
  shows "(\<exists>m. create_table w db t [(c, str ''FOOBAR'')] = (Inl (ValueError m), db))
    \<and> (clean_query_injection (chars w) t = Inr t \<longrightarrow>
         create_table w db t [(c, str ''FOOBAR'')]
           = (Inl (ValueError (ColumnTypeNotAllowed (str ''FOOBAR'')
                 (DB_DATA_TYPES_ALLOWED (types w)))), db))"
  using assms clean_cases[of "chars w" t]
  by (auto simp: create_table_def format_column_declaration_def upper_FOOBAR)

theorem create_table_FOOBAR_witness:
  "str ''FOOBAR'' \<notin> DB_DATA_TYPES_ALLOWED (types demo_env)
   \<and> clean_query_injection (chars demo_env) (str ''events'') = Inr (str ''events'')
   \<and> create_table demo_env new_database (str ''events'') [(str ''c'', str ''FOOBAR'')]
       = (Inl (ValueError (ColumnTypeNotAllowed (str ''FOOBAR'')
             (DB_DATA_TYPES_ALLOWED (types demo_env)))), new_database)"
proof -
  have c: "clean_query_injection (chars demo_env) (str ''events'') = Inr (str ''events'')"
    using demo_clean_events by (simp add: demo_env_def)
  show ?thesis
    using create_table_FOOBAR [OF demo_allowed, of new_database "str ''events''" "str ''c''"]
      demo_allowed c
    by simp
qed

text \<open>
  The claim C3 as stated, for every table name, fails at the table name \<open>drop\<close>: the
  error names the table name and does not list the vocabulary.
\<close>

theorem create_table_FOOBAR_counterexample:
  "create_table demo_env new_database (str ''drop'') [(str ''c'', str ''FOOBAR'')]
     = (Inl (ValueError (UnallowedCharacters (str ''drop''))), new_database)"
  by (simp add: create_table_def clean_query_injection_def DB_INJECTION_PATTERN_search_def
      leading_digit_or_underscore_def unallowed_character_def search_literal_def
      banned_keywords_def str_def ascii_digit_def word_cp_def ascii_letter_def
      literal_ignore_def lower_cp_def ascii_fold_def ascii_tables_def demo_env_def)

text \<open>
  Claim C4. For a table name the sanitizer accepts and a column declaration that passes
  the vocabulary and the sanitizer and that the engine accepts as the definition of a
  table, \<open>create_table\<close> succeeds twice in a row; the second call leaves the file as the
  first left it, and \<open>get_columns\<close> gives the same outcome after either.
\<close>

theorem create_table_idempotent:
  assumes "clean_query_injection (chars w) t = Inr t"
    and "format_column_declaration w cols = Inr q"
    and "\<not> malformed (engine w) (CreateTableIfNotExists t q)"
    and "declare_columns (engine w) q = Some cs" and "cs \<noteq> []"
  shows "\<exists>db1 db2. create_table w db t cols = (Inr (), db1)
    \<and> create_table w db1 t cols = (Inr (), db2)
    \<and> disk db1 (sql_fold t) \<noteq> None
    \<and> disk db2 = disk db1
    \<and> fst (get_columns w db1 t) = fst (get_columns w db2 t)"
proof -
  from transact_create[OF assms(3-5), of db "[]"] obtain db1 where
    1: "transact w db (CreateTableIfNotExists t q) [] = (Inr [], db1)"
    and d1: "disk db1 = (if disk db (sql_fold t) \<noteq> None then disk db
                   else (disk db)(sql_fold t \<mapsto> (cs, [])))" by blast
  from d1 have ex: "disk db1 (sql_fold t) \<noteq> None" by auto
  from transact_create[OF assms(3-5), of db1 "[]"] ex obtain db2 where
    2: "transact w db1 (CreateTableIfNotExists t q) [] = (Inr [], db2)"
    and d2: "disk db2 = disk db1" by auto
  have c1: "con db1 = None" "con db2 = None"
    using 1 2 transact_closed by blast+
  have a: "create_table w db t cols = (Inr (), db1)"
    using assms(1,2) 1 by (simp add: create_table_def)
  have b: "create_table w db1 t cols = (Inr (), db2)"
    using assms(1,2) 2 by (simp add: create_table_def)
  have g: "fst (get_columns w db1 t) = fst (get_columns w db2 t)"
    using d2 c1
    by (auto simp: get_columns_def transact_def get_connection_def close_connection_def
        Let_def split: sum.splits prod.splits)
  from a b ex d2 g show ?thesis by blast
qed

theorem create_table_idempotent_witness:
  "\<exists>db1 db2. create_table demo_env new_database (str ''events'') [(str ''id'', str ''integer'')]
        = (Inr (), db1)
    \<and> create_table demo_env db1 (str ''events'') [(str ''id'', str ''integer'')] = (Inr (), db2)
    \<and> disk db1 (sql_fold (str ''events'')) \<noteq> None
    \<and> disk db2 = disk db1
    \<and> fst (get_columns demo_env db1 (str ''events''))
        = fst (get_columns demo_env db2 (str ''events''))"
proof -
  have c: "clean_query_injection (chars demo_env) (str ''events'') = Inr (str ''events'')"
    using demo_clean_events by (simp add: demo_env_def)
  have m: "\<not> malformed (engine demo_env)
             (CreateTableIfNotExists (str ''events'') (str ''id INTEGER''))"
    by (simp add: demo_env_def demo_engine_def demo_malformed_def unusable_name_def str_def)
  have d: "declare_columns (engine demo_env) (str ''id INTEGER'') = Some [[str ''id INTEGER'']]"
    by (simp add: demo_env_def demo_engine_def str_def)
  show ?thesis
    using create_table_idempotent [OF c demo_format m d, of new_database] by simp
qed

subsection \<open>Inserting\<close>

text \<open>
  Claim C5. When \<open>get_columns\<close> reflects the columns of the table and the row has
  another length, \<open>insert\<close> raises the \<open>ValueError\<close> about the number of data elements.
  The state it leaves is the one the reflection left: the file is unchanged and the only
  statement handed to the engine was \<open>PRAGMA table_info\<close>.
\<close>

theorem insert_arity_mismatch:
  assumes "get_columns w db t = (Inr cols, db')" and "length d \<noteq> length cols"
  shows "insert_row w db t d
           = (Inl (ValueError (DataElementsMismatch (length d) (length cols))), db')
    \<and> disk db' = disk db
    \<and> (\<exists>new. history db' = history db @ new
          \<and> set new \<subseteq> {Opened, Executed (PragmaTableInfo t), Closed})"
proof -
  from assms(1) have c: "clean_query_injection (chars w) t = Inr t"
    by (simp add: get_columns_ok)
  have 1: "insert_row w db t d
           = (Inl (ValueError (DataElementsMismatch (length d) (length cols))), db')"
    using assms c
    by (simp add: insert_row_def prepare_insertion_def prepare_insertion_query_def)
  have 2: "disk db' = disk db" using assms(1) by (rule get_columns_disk)
  have 3: "\<exists>new. history db' = history db @ new
          \<and> set new \<subseteq> {Opened, Executed (PragmaTableInfo t), Closed}"
    using assms(1)
    by (auto simp: get_columns_def transact_def get_connection_def close_connection_def
        Let_def split: sum.splits prod.splits if_splits dest: clean_query_injection_same)
  from 1 2 3 show ?thesis by blast
qed

theorem insert_arity_mismatch_witness:
  "get_columns demo_env demo_database (str ''events'')
     = (Inr [[str ''id INTEGER''], [str ''occurred_at DATETIME'']],
        demo_database\<lparr>history := [Opened, Executed (PragmaTableInfo (str ''events'')), Closed]\<rparr>)
   \<and> insert_row demo_env demo_database (str ''events'') [str ''1'']
     = (Inl (ValueError (DataElementsMismatch 1 2)),
        demo_database\<lparr>history := [Opened, Executed (PragmaTableInfo (str ''events'')), Closed]\<rparr>)"
  using insert_arity_mismatch [OF demo_get_columns, of "[str ''1'']"] demo_get_columns by simp

text \<open>
  Claim C6. With the columns of the table reflected, \<open>insert_many\<close> raises the
  \<open>ValueError\<close> about the number of data elements iff the first row has another length
  than the table has columns. When the first row fits, the whole batch is handed to the
  engine as it is, whatever the widths of the later rows: the outcome is the engine's.
\<close>

theorem insert_many_first_row_only:
  assumes "get_columns w db t = (Inr cols, db')"
  shows "((\<exists>n m. fst (insert_many w db t (r # rs)) = Inl (ValueError (DataElementsMismatch n m)))
           \<longleftrightarrow> length r \<noteq> length cols)
    \<and> (length r \<noteq> length cols \<longrightarrow>
         insert_many w db t (r # rs)
           = (Inl (ValueError (DataElementsMismatch (length r) (length cols))), db'))
    \<and> (length r = length cols \<longrightarrow>
         fst (insert_many w db t (r # rs))
           = map_sum id (\<lambda>_. ())
               (fst (transact w db'
                  (InsertValues t (join (str '', '') (map (\<lambda>_. str ''?'') cols))) (r # rs))))"
proof -
  from assms have c: "clean_query_injection (chars w) t = Inr t"
    by (simp add: get_columns_ok)
  have p: "prepare_insertion w db t r =
     (if length r \<noteq> length cols
      then (Inl (ValueError (DataElementsMismatch (length r) (length cols))), db')
      else (Inr (InsertValues t (join (str '', '') (map (\<lambda>_. str ''?'') cols))), db'))"
    using assms c by (simp add: prepare_insertion_def prepare_insertion_query_def)
  show ?thesis
  proof (cases "length r = length cols")
    case False
    with p show ?thesis by (simp add: insert_many_def)
  next
    case True
    with p show ?thesis
      by (auto simp: insert_many_def split: prod.splits sum.splits
          dest: transact_no_ValueError)
  qed
qed

theorem insert_many_first_row_only_witness:
  "fst (insert_many demo_env demo_database (str ''events'') [[str ''1''], [str ''2'', str ''b'']])
     = Inl (ValueError (DataElementsMismatch 1 2))
   \<and> fst (insert_many demo_env demo_database (str ''events'')
          [[str ''1'', str ''a''], [str ''2'']]) = Inl (SQLiteError IncorrectBindings)"
proof -
  let ?db = "demo_database\<lparr>history := [Opened, Executed (PragmaTableInfo (str ''events'')), Closed]\<rparr>"
  have t: "fst (transact demo_env ?db
             (InsertValues (str ''events'')
                (join (str '', '') (map (\<lambda>_. str ''?'')
                   [[str ''id INTEGER''], [str ''occurred_at DATETIME'']])))
             [[str ''1'', str ''a''], [str ''2'']]) = Inl (SQLiteError IncorrectBindings)"
    by (simp add: transact_def execute_def get_connection_def
      close_connection_def Let_def demo_env_def demo_engine_def demo_malformed_def
      unusable_name_def demo_database_def sql_fold_def ascii_fold_def str_def
      placeholder_count_def)
  have 1: "fst (insert_many demo_env demo_database (str ''events'') [[str ''1''], [str ''2'', str ''b'']])
     = Inl (ValueError (DataElementsMismatch 1 2))"
    using insert_many_first_row_only [OF demo_get_columns, of "[str ''1'']" "[[str ''2'', str ''b'']]"]
    by simp
  have 2: "fst (insert_many demo_env demo_database (str ''events'')
          [[str ''1'', str ''a''], [str ''2'']]) = Inl (SQLiteError IncorrectBindings)"
    using insert_many_first_row_only [OF demo_get_columns, of "[str ''1'', str ''a'']" "[[str ''2'']]"] t
    by simp
  from 1 2 show ?thesis by simp
qed

text \<open>
  Claim C10. \<open>insert_many\<close> with an empty batch raises \<open>IndexError\<close>, from \<open>data[0]\<close>,
  whatever the table name: the database is left as it was, so no connection was opened
  and no statement was handed to the engine.
\<close>

theorem insert_many_empty: "insert_many w db table_name [] = (Inl IndexError, db)"
  by (simp add: insert_many_def)

theorem insert_many_empty_witness:
  "insert_many demo_env new_database (str ''events'') [] = (Inl IndexError, new_database)"
  using insert_many_empty [of demo_env new_database "str ''events''"] .

subsection \<open>Reflecting a missing table\<close>

text \<open>
  Claim C7, as the code has it. For a table name that passes the sanitizer and names no
  table of the file, \<open>get_columns\<close> raises and leaves the handle \<open>None\<close>. The exception is
  \<open>CommonSQLError\<close>, from the empty result, when the engine accepts the statement; when
  the engine refuses the statement, its own error comes through instead.
\<close>

theorem get_columns_missing_table:
  assumes "clean_query_injection (chars w) t = Inr t" and "disk db (sql_fold t) = None"
  shows "(\<exists>err. fst (get_columns w db t) = Inl err)
    \<and> con (snd (get_columns w db t)) = None
    \<and> (\<not> malformed (engine w) (PragmaTableInfo t) \<longrightarrow>
         fst (get_columns w db t) = Inl (CommonSQLError (ColumnRetrievalFailed t)))
    \<and> (malformed (engine w) (PragmaTableInfo t) \<longrightarrow>
         fst (get_columns w db t) = Inl (SQLiteError SyntaxOrSchema))"
  using assms
  by (auto simp: get_columns_def transact_def execute_def get_connection_def
      close_connection_def Let_def)

theorem get_columns_missing_table_witness:
  "clean_query_injection (chars demo_env) (str ''events'') = Inr (str ''events'')
   \<and> disk (new_database :: pystr database) (sql_fold (str ''events'')) = None
   \<and> get_columns demo_env new_database (str ''events'')
       = (Inl (CommonSQLError (ColumnRetrievalFailed (str ''events''))),
          snd (get_columns demo_env new_database (str ''events'')))
   \<and> con (snd (get_columns demo_env new_database (str ''events''))) = None"
proof -
  have c: "clean_query_injection (chars demo_env) (str ''events'') = Inr (str ''events'')"
    using demo_clean_events by (simp add: demo_env_def)
  have d: "disk new_database (sql_fold (str ''events'')) = None"
    by (simp add: new_database_def)
  have m: "\<not> malformed (engine demo_env) (PragmaTableInfo (str ''events''))"
    by (simp add: demo_env_def demo_engine_def demo_malformed_def unusable_name_def str_def)
  show ?thesis
    using get_columns_missing_table [OF c d] c d m
    by (metis prod.collapse)
qed

text \<open>
  The claim C7 as stated, for every name that passes the sanitizer, fails at
  \<open>my table\<close>: the sanitizer allows the space, the statement is
  \<open>PRAGMA table_info(my table)\<close>, and the engine refuses it with a syntax error.
\<close>

theorem get_columns_missing_table_counterexample:
  "clean_query_injection (chars demo_env) (str ''my table'') = Inr (str ''my table'')
   \<and> disk (new_database :: pystr database) (sql_fold (str ''my table'')) = None
   \<and> fst (get_columns demo_env new_database (str ''my table'')) = Inl (SQLiteError SyntaxOrSchema)"
  using demo_clean_my_table
  by (simp add: get_columns_def transact_def execute_def get_connection_def
      close_connection_def Let_def demo_env_def demo_engine_def demo_malformed_def
      unusable_name_def new_database_def str_def)

subsection \<open>The connection handle\<close>

lemma create_table_closed: "create_table w db t cols = (r, db') \<Longrightarrow> con db = None \<Longrightarrow> con db' = None"
  by (auto simp: create_table_def split: sum.splits prod.splits dest: transact_closed)

lemma execute_query_closed: "execute_query w db q = (r, db') \<Longrightarrow> con db' = None"
  by (auto simp: execute_query_def split: sum.splits prod.splits if_splits dest: transact_closed)

lemma prepare_insertion_query_closed:
  "prepare_insertion_query w db t = (r, db') \<Longrightarrow> con db = None \<Longrightarrow> con db' = None"
  by (auto simp: prepare_insertion_query_def split: sum.splits prod.splits dest: get_columns_closed)

lemma prepare_insertion_closed:
  "prepare_insertion w db t d = (r, db') \<Longrightarrow> con db = None \<Longrightarrow> con db' = None"
  by (auto simp: prepare_insertion_def split: sum.splits prod.splits if_splits
      dest: prepare_insertion_query_closed)

lemma insert_row_closed: "insert_row w db t d = (r, db') \<Longrightarrow> con db = None \<Longrightarrow> con db' = None"
  by (auto simp: insert_row_def split: sum.splits prod.splits
      dest: prepare_insertion_closed transact_closed)

lemma insert_many_closed: "insert_many w db t ds = (r, db') \<Longrightarrow> con db = None \<Longrightarrow> con db' = None"
  by (auto simp: insert_many_def split: sum.splits prod.splits list.splits
      dest: prepare_insertion_closed transact_closed)

text \<open>
  Claim C8. Each of the five public operations, started with the handle \<open>None\<close>, ends
  with the handle \<open>None\<close>, whether it returns or raises.
\<close>

theorem handle_released:
  assumes "con db = None"
  shows "con (snd (create_table w db t cols)) = None
    \<and> con (snd (get_columns w db t)) = None
    \<and> con (snd (insert_row w db t d)) = None
    \<and> con (snd (insert_many w db t ds)) = None
    \<and> con (snd (execute_query w db q)) = None"
  using assms create_table_closed[of w db t cols] get_columns_closed[of w db t]
    insert_row_closed[of w db t d] insert_many_closed[of w db t ds]
    execute_query_closed[of w db q]
  by (metis prod.collapse)

theorem handle_released_witness:
  "con (new_database :: pystr database) = None
   \<and> con (snd (insert_row demo_env new_database (str ''events'') [str ''1''])) = None"
proof -
  have "con (new_database :: pystr database) = None" by (simp add: new_database_def)
  then show ?thesis
    using handle_released [of new_database demo_env "str ''events''" "[]" "[str ''1'']" "[]" "[]"]
    by simp
qed

lemma bracketed_cycle [simp]: "bracketed False [Opened, Executed stmt, Closed]"
  by simp

lemma create_table_history:
  "create_table w db t cols = (r, db') \<Longrightarrow> con db = None \<Longrightarrow>
   history db' = history db \<or> (\<exists>stmt. history db' = history db @ [Opened, Executed stmt, Closed])"
  by (auto simp: create_table_def split: sum.splits prod.splits dest: transact_history)

lemma execute_query_history:
  "execute_query w db q = (r, db') \<Longrightarrow> con db = None \<Longrightarrow>
   history db' = history db @ [Opened, Executed (RawQuery q), Closed]"
  by (auto simp: execute_query_def split: sum.splits prod.splits if_splits dest: transact_history)

lemma prepare_insertion_history:
  "prepare_insertion w db t d = (r, db') \<Longrightarrow> con db = None \<Longrightarrow>
   con db' = None \<and> (history db' = history db
     \<or> history db' = history db @ [Opened, Executed (PragmaTableInfo t), Closed])"
  by (auto simp: prepare_insertion_def prepare_insertion_query_def
      split: sum.splits prod.splits if_splits
      dest: get_columns_history get_columns_closed clean_query_injection_same)

lemma insert_row_history:
  assumes "insert_row w db t d = (r, db')" "con db = None"
  shows "\<exists>new. history db' = history db @ new \<and> bracketed False new \<and> acquisitions new \<le> 2"
proof (cases "prepare_insertion w db t d")
  case (Pair r1 db1)
  from prepare_insertion_history[OF Pair assms(2)] have c1: "con db1 = None"
    and h1: "history db1 = history db
     \<or> history db1 = history db @ [Opened, Executed (PragmaTableInfo t), Closed]" by auto
  show ?thesis
  proof (cases r1)
    case (Inl e)
    with Pair assms(1) have "db' = db1" by (simp add: insert_row_def)
    with h1 show ?thesis by (auto simp: acquisitions_def)
  next
    case (Inr query)
    obtain r2 db2 where t: "transact w db1 query [d] = (r2, db2)" by (cases "transact w db1 query [d]")
    with Pair Inr assms(1) have "db' = db2"
      by (auto simp: insert_row_def split: sum.splits)
    with transact_history[OF t c1] h1 show ?thesis by (auto simp: acquisitions_def)
  qed
qed

lemma insert_many_history:
  assumes "insert_many w db t ds = (r, db')" "con db = None"
  shows "\<exists>new. history db' = history db @ new \<and> bracketed False new \<and> acquisitions new \<le> 2"
proof (cases ds)
  case Nil
  with assms show ?thesis by (simp add: insert_many_def acquisitions_def)
next
  case (Cons d rest)
  show ?thesis
  proof (cases "prepare_insertion w db t d")
    case (Pair r1 db1)
    from prepare_insertion_history[OF Pair assms(2)] have c1: "con db1 = None"
      and h1: "history db1 = history db
       \<or> history db1 = history db @ [Opened, Executed (PragmaTableInfo t), Closed]" by auto
    show ?thesis
    proof (cases r1)
      case (Inl e)
      with Pair Cons assms(1) have "db' = db1" by (simp add: insert_many_def)
      with h1 show ?thesis by (auto simp: acquisitions_def)
    next
      case (Inr query)
      obtain r2 db2 where t: "transact w db1 query ds = (r2, db2)"
        by (cases "transact w db1 query ds")
      with Pair Inr Cons assms(1) have "db' = db2"
        by (auto simp: insert_many_def split: sum.splits)
      with transact_history[OF t c1] h1 show ?thesis by (auto simp: acquisitions_def)
    qed
  qed
qed

text \<open>
  Claim C9, as the code has it. Started with the handle \<open>None\<close>, \<open>create_table\<close>,
  \<open>get_columns\<close> and \<open>execute_query\<close> open a connection at most once in a call;
  \<open>insert\<close> and \<open>insert_many\<close> open one at most twice, for the reflection of the columns
  and then for the write. In every case a connection is closed before the next is
  opened, and statements are executed only while one is open.
\<close>

theorem acquisitions_per_call:
  assumes "con db = None"
  shows "(\<exists>new. history (snd (create_table w db t cols)) = history db @ new
            \<and> bracketed False new \<and> acquisitions new \<le> 1)
    \<and> (\<exists>new. history (snd (get_columns w db t)) = history db @ new
            \<and> bracketed False new \<and> acquisitions new \<le> 1)
    \<and> (\<exists>new. history (snd (execute_query w db q)) = history db @ new
            \<and> bracketed False new \<and> acquisitions new \<le> 1)
    \<and> (\<exists>new. history (snd (insert_row w db t d)) = history db @ new
            \<and> bracketed False new \<and> acquisitions new \<le> 2)
    \<and> (\<exists>new. history (snd (insert_many w db t ds)) = history db @ new
            \<and> bracketed False new \<and> acquisitions new \<le> 2)"
proof (intro conjI)
  show "\<exists>new. history (snd (create_table w db t cols)) = history db @ new
            \<and> bracketed False new \<and> acquisitions new \<le> 1"
    using create_table_history[OF surjective_pairing assms, of w t cols]
    by (auto simp: acquisitions_def)
  show "\<exists>new. history (snd (get_columns w db t)) = history db @ new
            \<and> bracketed False new \<and> acquisitions new \<le> 1"
    using get_columns_history[OF surjective_pairing assms, of w t]
    by (auto simp: acquisitions_def)
  show "\<exists>new. history (snd (execute_query w db q)) = history db @ new
            \<and> bracketed False new \<and> acquisitions new \<le> 1"
    using execute_query_history[OF surjective_pairing assms, of w q]
    by (auto simp: acquisitions_def)
  show "\<exists>new. history (snd (insert_row w db t d)) = history db @ new
            \<and> bracketed False new \<and> acquisitions new \<le> 2"
    using insert_row_history[OF surjective_pairing assms] .
  show "\<exists>new. history (snd (insert_many w db t ds)) = history db @ new
            \<and> bracketed False new \<and> acquisitions new \<le> 2"
    using insert_many_history[OF surjective_pairing assms] .
qed

theorem acquisitions_per_call_witness:
  "con (new_database :: pystr database) = None
   \<and> (\<exists>new. history (snd (insert_row demo_env new_database (str ''events'') [str ''1'']))
          = history (new_database :: pystr database) @ new
        \<and> bracketed False new \<and> acquisitions new \<le> 2)"
proof -
  have "con (new_database :: pystr database) = None" by (simp add: new_database_def)
  then show ?thesis
    using acquisitions_per_call [of new_database demo_env "str ''events''" "[]" "[]" "[str ''1'']" "[]"]
    by simp
qed

text \<open>
  The claim C9 as stated, at most one acquisition in any call, fails for \<open>insert\<close> on an
  existing table: the call opens and closes a connection for \<open>PRAGMA table_info\<close> and
  opens a second one for the \<open>INSERT\<close>.
\<close>

theorem acquisitions_per_call_counterexample:
  "con demo_database = None
   \<and> history demo_database = []
   \<and> history (snd (insert_row demo_env demo_database (str ''events'') [str ''1'', str ''a'']))
       = [Opened, Executed (PragmaTableInfo (str ''events'')), Closed,
          Opened, Executed (InsertValues (str ''events'') (str ''?, ?'')), Closed]"
proof -
  let ?db = "demo_database\<lparr>history := [Opened, Executed (PragmaTableInfo (str ''events'')), Closed]\<rparr>"
  have p: "prepare_insertion demo_env demo_database (str ''events'') [str ''1'', str ''a'']
     = (Inr (InsertValues (str ''events'') (str ''?, ?'')), ?db)"
    using demo_get_columns demo_clean_events
    by (simp add: prepare_insertion_def prepare_insertion_query_def demo_env_def) (simp add: str_def)
  have c: "con ?db = None" by (simp add: demo_database_def)
  obtain r db2 where t: "transact demo_env ?db (InsertValues (str ''events'') (str ''?, ?''))
     [[str ''1'', str ''a'']] = (r, db2)" by force
  from transact_history[OF t c] have "history db2 = [Opened, Executed (PragmaTableInfo (str ''events'')), Closed,
          Opened, Executed (InsertValues (str ''events'') (str ''?, ?'')), Closed]" by simp
  with p t show ?thesis
    by (auto simp: insert_row_def demo_database_def split: sum.splits)
qed

end
